theory Spec2Isabelle
  imports Main "HOL-Library.Word" "HOL-Library.AList"
begin

section \<open>Data model of chown.h\<close>

text \<open>
  The probe file \<^verbatim>\<open>pkg/security/ebpf/c/chown.h\<close> includes \<^verbatim>\<open>syscalls.h\<close>, which is where
  the structures, the correlation table and the external helpers live. The types below
  carry exactly the fields that chown.h reads or writes.
\<close>

type_synonym u32 = "32 word"
type_synonym u64 = "64 word"
type_synonym s32 = "32 word"  \<comment> \<open>C \<^verbatim>\<open>int\<close>; read as signed with \<open>sint\<close>\<close>
type_synonym uid_t = u32
type_synonym gid_t = u32
type_synonym task_id = u64    \<comment> \<open>the key of the executing task\<close>

text \<open>
  Modelled from the spec: the event-kind tag. chown.h names only \<^verbatim>\<open>EVENT_CHOWN\<close>; the
  other syscall families that share the correlation table stand as \<open>EVENT_OTHER n\<close>.
\<close>

datatype event_type = EVENT_CHOWN | EVENT_OTHER nat

record policy_t =
  mode :: int

record path_key_t =
  mount_id :: u32

record file_t =
  path_key :: path_key_t

text \<open>The \<^verbatim>\<open>setattr\<close> payload of an in-flight record: \<^verbatim>\<open>dentry\<close> is a pointer.\<close>

record setattr_t =
  dentry :: u64
  "file" :: file_t
  user :: uid_t
  group :: gid_t

record syscall_cache_t =
  type :: event_type
  policy :: policy_t
  setattr :: setattr_t

text \<open>What C's designated initialisers leave out is zero.\<close>

definition zero_file :: file_t where
  "zero_file = \<lparr>path_key = \<lparr>mount_id = 0\<rparr>\<rparr>"

text \<open>
  The output event. \<^verbatim>\<open>event\<close> is the header and \<^verbatim>\<open>syscall\<close> the call metadata; the
  process, span and container contexts are declared outside chown.h and stay opaque
  (\<open>'p\<close>, \<open>'s\<close>, \<open>'c\<close>).
\<close>

record kevent_t =
  async :: int

record syscall_t =
  retval :: s32

record ('p, 's, 'c) chown_event_t =
  event :: kevent_t
  process :: 'p
  span :: 's
  container :: 'c
  syscall :: syscall_t
  "file" :: file_t
  uid :: uid_t
  gid :: gid_t

section \<open>The syscall correlation table\<close>

text \<open>
  Modelled from the spec: the correlation table behind \<^verbatim>\<open>cache_syscall\<close> and
  \<^verbatim>\<open>pop_syscall\<close>, which chown.h calls and syscalls.h defines. The spec gives it as a
  fixed-capacity store keyed by the executing task, one slot per task, tagged by event
  type, with overwrite-oldest as the eviction default. The table is an association
  list, newest record first; \<open>cap\<close> is its capacity.
\<close>

type_synonym syscalls_map = "(task_id \<times> syscall_cache_t) list"

text \<open>
  Modelled from the spec: \<^verbatim>\<open>push(task_id, type, record)\<close>. A push for a task whose slot
  is occupied overwrites the prior record; a push into a full table evicts the oldest.
\<close>

definition cache_syscall :: "nat \<Rightarrow> task_id \<Rightarrow> syscall_cache_t \<Rightarrow> syscalls_map \<Rightarrow> syscalls_map" where
  "cache_syscall cap t r tbl = take cap ((t, r) # AList.delete t tbl)"

text \<open>
  Modelled from the spec: \<^verbatim>\<open>pop(task_id, type) -> record|none\<close>, remove-and-return of
  the in-flight record for the task and this event type; a no-op when there is none.
\<close>

definition pop_syscall :: "event_type \<Rightarrow> task_id \<Rightarrow> syscalls_map \<Rightarrow> syscall_cache_t option \<times> syscalls_map" where
  "pop_syscall ty t tbl =
     (case map_of tbl t of
        None \<Rightarrow> (None, tbl)
      | Some r \<Rightarrow> if type r = ty then (Some r, AList.delete t tbl) else (None, tbl))"

text \<open>Sequences of table operations, issued by any tasks, starting from a given table.\<close>

datatype table_op = Push task_id syscall_cache_t | Pop task_id event_type

fun apply_table_op :: "nat \<Rightarrow> table_op \<Rightarrow> syscalls_map \<Rightarrow> syscalls_map" where
  "apply_table_op cap (Push t r) tbl = cache_syscall cap t r tbl"
| "apply_table_op cap (Pop t ty) tbl = snd (pop_syscall ty t tbl)"

fun run_table_ops :: "nat \<Rightarrow> table_op list \<Rightarrow> syscalls_map \<Rightarrow> syscalls_map" where
  "run_table_ops cap [] tbl = tbl"
| "run_table_ops cap (x # xs) tbl = run_table_ops cap xs (apply_table_op cap x tbl)"

fun is_push_for :: "task_id \<Rightarrow> table_op \<Rightarrow> bool" where
  "is_push_for t (Push t' r) = (t' = t)"
| "is_push_for t (Pop t' ty) = False"

fun task_of :: "table_op \<Rightarrow> task_id" where
  "task_of (Push t r) = t"
| "task_of (Pop t ty) = t"

text \<open>
  The table keeps at most one record per task and never more than \<open>cap\<close> records.
\<close>

definition table_inv :: "nat \<Rightarrow> syscalls_map \<Rightarrow> bool" where
  "table_inv cap tbl = (distinct (map fst tbl) \<and> length tbl \<le> cap)"

text \<open>
  A table with the policy snapshot of every record blanked: two tables that agree once
  blanked differ in the policy fields only.
\<close>

definition erase_policy :: "syscalls_map \<Rightarrow> syscalls_map" where
  "erase_policy tbl = map (\<lambda>(k, r). (k, r\<lparr>policy := \<lparr>mode = 0\<rparr>\<rparr>)) tbl"

section \<open>External collaborators and probe state\<close>

text \<open>
  chown.h calls helpers and macros that it does not define. They are parameters of the
  model, one field each: what the policy store returns, the two discard classifiers,
  the mount classification, the three context fillers (the process filler also returns
  the process-cache entry \<open>'h\<close> that the container filler takes), the approver, and
  the capacity of the correlation table. The helpers that read the executing task
  through \<^verbatim>\<open>bpf_get_current_pid_tgid\<close> take it as an argument.
\<close>

record ('p, 'h, 's, 'c) externals =
  fetch_policy :: "event_type \<Rightarrow> policy_t"
  is_discarded_by_process :: "task_id \<Rightarrow> int \<Rightarrow> event_type \<Rightarrow> bool"
  IS_UNHANDLED_ERROR :: "s32 \<Rightarrow> bool"
  is_pipefs_mount_id :: "u32 \<Rightarrow> bool"
  fill_process_context :: "task_id \<Rightarrow> 'p \<times> 'h"
  fill_container_context :: "'h \<Rightarrow> 'c"
  fill_span_context :: "task_id \<Rightarrow> 's"
  basename_approver :: "syscall_cache_t \<Rightarrow> u64 \<Rightarrow> event_type \<Rightarrow> int"
  max_entries :: nat

text \<open>
  The state the probes act on: the correlation table, and the events handed to
  \<^verbatim>\<open>send_event\<close> so far, oldest first.
\<close>

record ('p, 's, 'c) probe_state =
  syscalls :: syscalls_map
  emitted :: "(event_type \<times> ('p, 's, 'c) chown_event_t) list"

text \<open>
  Modelled from the spec: Transport, \<^verbatim>\<open>send_event(channel, event_type, event_bytes)\<close>,
  fire-and-forget. The channel handle \<open>ctx\<close> plays no part in what is sent.
\<close>

definition send_event ::
  "'x \<Rightarrow> event_type \<Rightarrow> ('p, 's, 'c) chown_event_t \<Rightarrow> ('p, 's, 'c) probe_state \<Rightarrow> ('p, 's, 'c) probe_state" where
  "send_event ctx ty ev s = s\<lparr>emitted := emitted s @ [(ty, ev)]\<rparr>"

section \<open>The probes of chown.h\<close>

text \<open>\<^verbatim>\<open>chown_approvers\<close>, lines 17 to 19.\<close>

definition chown_approvers :: "('p, 'h, 's, 'c) externals \<Rightarrow> syscall_cache_t \<Rightarrow> int" where
  "chown_approvers env syscall' = basename_approver env syscall' (dentry (setattr syscall')) EVENT_CHOWN"

text \<open>
  Modelled from the spec: the approver/resolution step that runs between entry and exit
  (\<^verbatim>\<open>setattr.h\<close>, as the comment in \<^verbatim>\<open>sys_chown_ret\<close> says). For the in-flight chown
  record of the executing task it records the candidate directory entry and asks
  \<^verbatim>\<open>chown_approvers\<close>. False (0) means discard without emitting an event: the record is
  removed and never reaches the transport. True means that resolution proceeds and the
  resolved file identity is attached. Nothing else of the record is touched.
\<close>

definition resolve_setattr ::
  "('p, 'h, 's, 'c) externals \<Rightarrow> task_id \<Rightarrow> u64 \<times> file_t \<Rightarrow> syscalls_map \<Rightarrow> syscalls_map" where
  "resolve_setattr env t df tbl =
     (case map_of tbl t of
        None \<Rightarrow> tbl
      | Some r \<Rightarrow>
          if type r = EVENT_CHOWN
          then
            let r1 = r\<lparr>setattr := (setattr r)\<lparr>dentry := fst df\<rparr>\<rparr> in
            if chown_approvers env r1 \<noteq> 0
            then AList.update t (r1\<lparr>setattr := (setattr r1)\<lparr>setattr_t.file := snd df\<rparr>\<rparr>) tbl
            else AList.delete t tbl
          else tbl)"

text \<open>
  \<^verbatim>\<open>trace__sys_chown\<close>, lines 21 to 39. A probe returns 0 in every branch; the result of
  the model is that return value and the new state.
\<close>

definition trace__sys_chown ::
  "('p, 'h, 's, 'c) externals \<Rightarrow> task_id \<Rightarrow> uid_t \<Rightarrow> gid_t \<Rightarrow> ('p, 's, 'c) probe_state \<Rightarrow> int \<times> ('p, 's, 'c) probe_state" where
  "trace__sys_chown env t user' group' s =
     (let policy' = fetch_policy env EVENT_CHOWN in
      if is_discarded_by_process env t (mode policy') EVENT_CHOWN then (0, s)
      else
        let syscall' = \<lparr>type = EVENT_CHOWN, policy = policy',
                          setattr = \<lparr>dentry = 0, setattr_t.file = zero_file, user = user', group = group'\<rparr>\<rparr>
        in (0, s\<lparr>syscalls := cache_syscall (max_entries env) t syscall' (syscalls s)\<rparr>))"

text \<open>
  The seven entry probes, lines 41 to 67, in the order of the file. \<open>filename\<close> is a
  pointer, \<open>fd\<close> and \<open>dirfd\<close> are C ints; the \<^verbatim>\<open>SYSCALL_KPROBE\<close> macros that fetch them
  from the registers are defined outside chown.h.
\<close>

definition kprobe_lchown ::
  "('p, 'h, 's, 'c) externals \<Rightarrow> task_id \<Rightarrow> u64 \<Rightarrow> uid_t \<Rightarrow> gid_t \<Rightarrow> ('p, 's, 'c) probe_state \<Rightarrow> int \<times> ('p, 's, 'c) probe_state" where
  "kprobe_lchown env t filename user' group' s = trace__sys_chown env t user' group' s"

definition kprobe_fchown ::
  "('p, 'h, 's, 'c) externals \<Rightarrow> task_id \<Rightarrow> s32 \<Rightarrow> uid_t \<Rightarrow> gid_t \<Rightarrow> ('p, 's, 'c) probe_state \<Rightarrow> int \<times> ('p, 's, 'c) probe_state" where
  "kprobe_fchown env t fd user' group' s = trace__sys_chown env t user' group' s"

definition kprobe_chown ::
  "('p, 'h, 's, 'c) externals \<Rightarrow> task_id \<Rightarrow> u64 \<Rightarrow> uid_t \<Rightarrow> gid_t \<Rightarrow> ('p, 's, 'c) probe_state \<Rightarrow> int \<times> ('p, 's, 'c) probe_state" where
  "kprobe_chown env t filename user' group' s = trace__sys_chown env t user' group' s"

definition kprobe_lchown16 ::
  "('p, 'h, 's, 'c) externals \<Rightarrow> task_id \<Rightarrow> u64 \<Rightarrow> uid_t \<Rightarrow> gid_t \<Rightarrow> ('p, 's, 'c) probe_state \<Rightarrow> int \<times> ('p, 's, 'c) probe_state" where
  "kprobe_lchown16 env t filename user' group' s = trace__sys_chown env t user' group' s"

definition kprobe_fchown16 ::
  "('p, 'h, 's, 'c) externals \<Rightarrow> task_id \<Rightarrow> s32 \<Rightarrow> uid_t \<Rightarrow> gid_t \<Rightarrow> ('p, 's, 'c) probe_state \<Rightarrow> int \<times> ('p, 's, 'c) probe_state" where
  "kprobe_fchown16 env t fd user' group' s = trace__sys_chown env t user' group' s"

definition kprobe_chown16 ::
  "('p, 'h, 's, 'c) externals \<Rightarrow> task_id \<Rightarrow> u64 \<Rightarrow> uid_t \<Rightarrow> gid_t \<Rightarrow> ('p, 's, 'c) probe_state \<Rightarrow> int \<times> ('p, 's, 'c) probe_state" where
  "kprobe_chown16 env t filename user' group' s = trace__sys_chown env t user' group' s"

definition kprobe_fchownat ::
  "('p, 'h, 's, 'c) externals \<Rightarrow> task_id \<Rightarrow> s32 \<Rightarrow> u64 \<Rightarrow> uid_t \<Rightarrow> gid_t \<Rightarrow> ('p, 's, 'c) probe_state \<Rightarrow> int \<times> ('p, 's, 'c) probe_state" where
  "kprobe_fchownat env t dirfd filename user' group' s = trace__sys_chown env t user' group' s"

text \<open>
  \<^verbatim>\<open>sys_chown_ret\<close>, lines 69 to 100. \<open>ctx\<close> is a \<^verbatim>\<open>void *\<close> that is only handed on to
  \<^verbatim>\<open>send_event\<close>. The initialiser leaves the other fields of the event zero; the
  context fillers then write process, container and span.
\<close>

definition sys_chown_ret ::
  "('p, 'h, 's, 'c) externals \<Rightarrow> task_id \<Rightarrow> 'x \<Rightarrow> s32 \<Rightarrow> ('p, 's, 'c) probe_state \<Rightarrow> int \<times> ('p, 's, 'c) probe_state" where
  "sys_chown_ret env t ctx retval' s =
     (case pop_syscall EVENT_CHOWN t (syscalls s) of
        (None, tbl) \<Rightarrow> (0, s)
      | (Some syscall', tbl) \<Rightarrow>
          let s1 = s\<lparr>syscalls := tbl\<rparr> in
          if IS_UNHANDLED_ERROR env retval' then (0, s1)
          else if is_pipefs_mount_id env (mount_id (path_key (setattr_t.file (setattr syscall')))) then (0, s1)
          else
            let (process', entry) = fill_process_context env t;
                container' = fill_container_context env entry;
                span' = fill_span_context env t;
                event' = \<lparr>event = \<lparr>async = 0\<rparr>, process = process', span = span',
                           container = container', syscall = \<lparr>retval = retval'\<rparr>,
                           chown_event_t.file = setattr_t.file (setattr syscall'),
                           uid = user (setattr syscall'), gid = group (setattr syscall')\<rparr>
            in (0, send_event ctx EVENT_CHOWN event' s1))"

text \<open>
  The exit probes, lines 102 to 173, come in two trigger forms. A return probe reads the return-value
  register of its \<^verbatim>\<open>pt_regs\<close> through \<^verbatim>\<open>PT_REGS_RC\<close>; a tracepoint reads the \<^verbatim>\<open>ret\<close> field
  of its arguments. Both are the kernel's \<^verbatim>\<open>long\<close>, and C converts them to the \<^verbatim>\<open>int\<close>
  parameter of \<^verbatim>\<open>sys_chown_ret\<close> by keeping the low 32 bits.
\<close>

definition long_to_int :: "u64 \<Rightarrow> s32" where
  "long_to_int w = ucast w"

record pt_regs =
  rc :: u64

definition PT_REGS_RC :: "pt_regs \<Rightarrow> u64" where
  "PT_REGS_RC ctx = rc ctx"

record tracepoint_syscalls_sys_exit_t =
  ret :: u64

record tracepoint_raw_syscalls_sys_exit_t =
  ret :: u64

definition kprobe_sys_chown_ret ::
  "('p, 'h, 's, 'c) externals \<Rightarrow> task_id \<Rightarrow> pt_regs \<Rightarrow> ('p, 's, 'c) probe_state \<Rightarrow> int \<times> ('p, 's, 'c) probe_state" where
  "kprobe_sys_chown_ret env t ctx s = (let retval' = long_to_int (PT_REGS_RC ctx) in sys_chown_ret env t ctx retval' s)"

definition tracepoint_syscalls_sys_exit_lchown ::
  "('p, 'h, 's, 'c) externals \<Rightarrow> task_id \<Rightarrow> tracepoint_syscalls_sys_exit_t \<Rightarrow> ('p, 's, 'c) probe_state \<Rightarrow> int \<times> ('p, 's, 'c) probe_state" where
  "tracepoint_syscalls_sys_exit_lchown env t args s =
     sys_chown_ret env t args (long_to_int (tracepoint_syscalls_sys_exit_t.ret args)) s"

definition kretprobe_lchown ::
  "('p, 'h, 's, 'c) externals \<Rightarrow> task_id \<Rightarrow> pt_regs \<Rightarrow> ('p, 's, 'c) probe_state \<Rightarrow> int \<times> ('p, 's, 'c) probe_state" where
  "kretprobe_lchown env t ctx s = kprobe_sys_chown_ret env t ctx s"

definition tracepoint_syscalls_sys_exit_fchown ::
  "('p, 'h, 's, 'c) externals \<Rightarrow> task_id \<Rightarrow> tracepoint_syscalls_sys_exit_t \<Rightarrow> ('p, 's, 'c) probe_state \<Rightarrow> int \<times> ('p, 's, 'c) probe_state" where
  "tracepoint_syscalls_sys_exit_fchown env t args s =
     sys_chown_ret env t args (long_to_int (tracepoint_syscalls_sys_exit_t.ret args)) s"

definition kretprobe_fchown ::
  "('p, 'h, 's, 'c) externals \<Rightarrow> task_id \<Rightarrow> pt_regs \<Rightarrow> ('p, 's, 'c) probe_state \<Rightarrow> int \<times> ('p, 's, 'c) probe_state" where
  "kretprobe_fchown env t ctx s = kprobe_sys_chown_ret env t ctx s"

definition tracepoint_syscalls_sys_exit_chown ::
  "('p, 'h, 's, 'c) externals \<Rightarrow> task_id \<Rightarrow> tracepoint_syscalls_sys_exit_t \<Rightarrow> ('p, 's, 'c) probe_state \<Rightarrow> int \<times> ('p, 's, 'c) probe_state" where
  "tracepoint_syscalls_sys_exit_chown env t args s =
     sys_chown_ret env t args (long_to_int (tracepoint_syscalls_sys_exit_t.ret args)) s"

definition kretprobe_chown ::
  "('p, 'h, 's, 'c) externals \<Rightarrow> task_id \<Rightarrow> pt_regs \<Rightarrow> ('p, 's, 'c) probe_state \<Rightarrow> int \<times> ('p, 's, 'c) probe_state" where
  "kretprobe_chown env t ctx s = kprobe_sys_chown_ret env t ctx s"

definition tracepoint_syscalls_sys_exit_lchown16 ::
  "('p, 'h, 's, 'c) externals \<Rightarrow> task_id \<Rightarrow> tracepoint_syscalls_sys_exit_t \<Rightarrow> ('p, 's, 'c) probe_state \<Rightarrow> int \<times> ('p, 's, 'c) probe_state" where
  "tracepoint_syscalls_sys_exit_lchown16 env t args s =
     sys_chown_ret env t args (long_to_int (tracepoint_syscalls_sys_exit_t.ret args)) s"

definition kretprobe_lchown16 ::
  "('p, 'h, 's, 'c) externals \<Rightarrow> task_id \<Rightarrow> pt_regs \<Rightarrow> ('p, 's, 'c) probe_state \<Rightarrow> int \<times> ('p, 's, 'c) probe_state" where
  "kretprobe_lchown16 env t ctx s = kprobe_sys_chown_ret env t ctx s"

definition tracepoint_syscalls_sys_exit_fchown16 ::
  "('p, 'h, 's, 'c) externals \<Rightarrow> task_id \<Rightarrow> tracepoint_syscalls_sys_exit_t \<Rightarrow> ('p, 's, 'c) probe_state \<Rightarrow> int \<times> ('p, 's, 'c) probe_state" where
  "tracepoint_syscalls_sys_exit_fchown16 env t args s =
     sys_chown_ret env t args (long_to_int (tracepoint_syscalls_sys_exit_t.ret args)) s"

definition kretprobe_fchown16 ::
  "('p, 'h, 's, 'c) externals \<Rightarrow> task_id \<Rightarrow> pt_regs \<Rightarrow> ('p, 's, 'c) probe_state \<Rightarrow> int \<times> ('p, 's, 'c) probe_state" where
  "kretprobe_fchown16 env t ctx s = kprobe_sys_chown_ret env t ctx s"

definition tracepoint_syscalls_sys_exit_chown16 ::
  "('p, 'h, 's, 'c) externals \<Rightarrow> task_id \<Rightarrow> tracepoint_syscalls_sys_exit_t \<Rightarrow> ('p, 's, 'c) probe_state \<Rightarrow> int \<times> ('p, 's, 'c) probe_state" where
  "tracepoint_syscalls_sys_exit_chown16 env t args s =
     sys_chown_ret env t args (long_to_int (tracepoint_syscalls_sys_exit_t.ret args)) s"

definition kretprobe_chown16 ::
  "('p, 'h, 's, 'c) externals \<Rightarrow> task_id \<Rightarrow> pt_regs \<Rightarrow> ('p, 's, 'c) probe_state \<Rightarrow> int \<times> ('p, 's, 'c) probe_state" where
  "kretprobe_chown16 env t ctx s = kprobe_sys_chown_ret env t ctx s"

definition tracepoint_syscalls_sys_exit_fchownat ::
  "('p, 'h, 's, 'c) externals \<Rightarrow> task_id \<Rightarrow> tracepoint_syscalls_sys_exit_t \<Rightarrow> ('p, 's, 'c) probe_state \<Rightarrow> int \<times> ('p, 's, 'c) probe_state" where
  "tracepoint_syscalls_sys_exit_fchownat env t args s =
     sys_chown_ret env t args (long_to_int (tracepoint_syscalls_sys_exit_t.ret args)) s"

definition kretprobe_fchownat ::
  "('p, 'h, 's, 'c) externals \<Rightarrow> task_id \<Rightarrow> pt_regs \<Rightarrow> ('p, 's, 'c) probe_state \<Rightarrow> int \<times> ('p, 's, 'c) probe_state" where
  "kretprobe_fchownat env t ctx s = kprobe_sys_chown_ret env t ctx s"

definition tracepoint_handle_sys_chown_exit ::
  "('p, 'h, 's, 'c) externals \<Rightarrow> task_id \<Rightarrow> tracepoint_raw_syscalls_sys_exit_t \<Rightarrow> ('p, 's, 'c) probe_state \<Rightarrow> int \<times> ('p, 's, 'c) probe_state" where
  "tracepoint_handle_sys_chown_exit env t args s =
     sys_chown_ret env t args (long_to_int (tracepoint_raw_syscalls_sys_exit_t.ret args)) s"

section \<open>The kernel hook surface\<close>

text \<open>
  The kernel runs the entry probe attached to the syscall a task issues, and at its
  exit one of the exit probes: the return probe or the tracepoint of that syscall, or
  the raw-syscalls exit tracepoint.
\<close>

datatype chown_syscall =
    SYS_lchown u64
  | SYS_fchown s32
  | SYS_chown u64
  | SYS_lchown16 u64
  | SYS_fchown16 s32
  | SYS_chown16 u64
  | SYS_fchownat s32 u64

datatype exit_trigger =
    Kretprobe pt_regs
  | Tracepoint tracepoint_syscalls_sys_exit_t
  | Raw_tracepoint tracepoint_raw_syscalls_sys_exit_t

fun syscall_entry ::
  "('p, 'h, 's, 'c) externals \<Rightarrow> task_id \<Rightarrow> chown_syscall \<Rightarrow> uid_t \<Rightarrow> gid_t \<Rightarrow> ('p, 's, 'c) probe_state \<Rightarrow> int \<times> ('p, 's, 'c) probe_state" where
  "syscall_entry env t (SYS_lchown filename) u g s = kprobe_lchown env t filename u g s"
| "syscall_entry env t (SYS_fchown fd) u g s = kprobe_fchown env t fd u g s"
| "syscall_entry env t (SYS_chown filename) u g s = kprobe_chown env t filename u g s"
| "syscall_entry env t (SYS_lchown16 filename) u g s = kprobe_lchown16 env t filename u g s"
| "syscall_entry env t (SYS_fchown16 fd) u g s = kprobe_fchown16 env t fd u g s"
| "syscall_entry env t (SYS_chown16 filename) u g s = kprobe_chown16 env t filename u g s"
| "syscall_entry env t (SYS_fchownat dirfd filename) u g s = kprobe_fchownat env t dirfd filename u g s"

fun syscall_exit ::
  "('p, 'h, 's, 'c) externals \<Rightarrow> task_id \<Rightarrow> chown_syscall \<Rightarrow> exit_trigger \<Rightarrow> ('p, 's, 'c) probe_state \<Rightarrow> int \<times> ('p, 's, 'c) probe_state" where
  "syscall_exit env t v (Raw_tracepoint args) s = tracepoint_handle_sys_chown_exit env t args s"
| "syscall_exit env t (SYS_lchown filename) (Kretprobe ctx) s = kretprobe_lchown env t ctx s"
| "syscall_exit env t (SYS_lchown filename) (Tracepoint args) s = tracepoint_syscalls_sys_exit_lchown env t args s"
| "syscall_exit env t (SYS_fchown fd) (Kretprobe ctx) s = kretprobe_fchown env t ctx s"
| "syscall_exit env t (SYS_fchown fd) (Tracepoint args) s = tracepoint_syscalls_sys_exit_fchown env t args s"
| "syscall_exit env t (SYS_chown filename) (Kretprobe ctx) s = kretprobe_chown env t ctx s"
| "syscall_exit env t (SYS_chown filename) (Tracepoint args) s = tracepoint_syscalls_sys_exit_chown env t args s"
| "syscall_exit env t (SYS_lchown16 filename) (Kretprobe ctx) s = kretprobe_lchown16 env t ctx s"
| "syscall_exit env t (SYS_lchown16 filename) (Tracepoint args) s = tracepoint_syscalls_sys_exit_lchown16 env t args s"
| "syscall_exit env t (SYS_fchown16 fd) (Kretprobe ctx) s = kretprobe_fchown16 env t ctx s"
| "syscall_exit env t (SYS_fchown16 fd) (Tracepoint args) s = tracepoint_syscalls_sys_exit_fchown16 env t args s"
| "syscall_exit env t (SYS_chown16 filename) (Kretprobe ctx) s = kretprobe_chown16 env t ctx s"
| "syscall_exit env t (SYS_chown16 filename) (Tracepoint args) s = tracepoint_syscalls_sys_exit_chown16 env t args s"
| "syscall_exit env t (SYS_fchownat dirfd filename) (Kretprobe ctx) s = kretprobe_fchownat env t ctx s"
| "syscall_exit env t (SYS_fchownat dirfd filename) (Tracepoint args) s = tracepoint_syscalls_sys_exit_fchownat env t args s"

text \<open>The raw return value an exit trigger carries.\<close>

fun raw_return :: "exit_trigger \<Rightarrow> u64" where
  "raw_return (Kretprobe ctx) = rc ctx"
| "raw_return (Tracepoint args) = tracepoint_syscalls_sys_exit_t.ret args"
| "raw_return (Raw_tracepoint args) = tracepoint_raw_syscalls_sys_exit_t.ret args"

text \<open>
  One call as the executing task \<open>t\<close> lives it: the entry probe, the resolution steps
  \<open>rs\<close> that run while the call is in flight, and the exit probe.
\<close>

definition chown_call ::
  "('p, 'h, 's, 'c) externals \<Rightarrow> task_id \<Rightarrow> chown_syscall \<Rightarrow> uid_t \<Rightarrow> gid_t \<Rightarrow> (u64 \<times> file_t) list \<Rightarrow> exit_trigger \<Rightarrow> ('p, 's, 'c) probe_state \<Rightarrow> ('p, 's, 'c) probe_state" where
  "chown_call env t v u g rs trig s =
     (let s1 = snd (syscall_entry env t v u g s);
          s2 = s1\<lparr>syscalls := fold (resolve_setattr env t) rs (syscalls s1)\<rparr>
      in snd (syscall_exit env t v trig s2))"

text \<open>
  The same call among other tasks. While it is in flight, the steps that touch the
  shared table are the resolution steps of the task itself and the pushes and pops of
  other tasks, in any order.
\<close>

datatype in_flight_step = Resolve "u64 \<times> file_t" | Other_task table_op

fun in_flight ::
  "('p, 'h, 's, 'c) externals \<Rightarrow> task_id \<Rightarrow> in_flight_step \<Rightarrow> syscalls_map \<Rightarrow> syscalls_map" where
  "in_flight env t (Resolve df) tbl = resolve_setattr env t df tbl"
| "in_flight env t (Other_task x) tbl = apply_table_op (max_entries env) x tbl"



definition chown_call_interleaved ::
  "('p, 'h, 's, 'c) externals \<Rightarrow> task_id \<Rightarrow> chown_syscall \<Rightarrow> uid_t \<Rightarrow> gid_t \<Rightarrow> in_flight_step list \<Rightarrow> exit_trigger \<Rightarrow> ('p, 's, 'c) probe_state \<Rightarrow> ('p, 's, 'c) probe_state" where
  "chown_call_interleaved env t v u g steps trig s =
     (let s1 = snd (syscall_entry env t v u g s);
          s2 = s1\<lparr>syscalls := fold (in_flight env t) steps (syscalls s1)\<rparr>
      in snd (syscall_exit env t v trig s2))"

section \<open>Scenario values\<close>

text \<open>
  A concrete environment for the scenarios: policy mode 2 is the one discarded by
  process, \<^verbatim>\<open>-EFAULT\<close> (\<open>- 14\<close>) is the unhandled error, mount 7 is pipefs, the
  approver rejects the null directory entry, and the table holds two records.
\<close>

definition scenario_env :: "(nat, nat, nat, nat) externals" where
  "scenario_env =
     \<lparr>fetch_policy = (\<lambda>ty. \<lparr>mode = 1\<rparr>),
      is_discarded_by_process = (\<lambda>t m ty. m = 2),
      IS_UNHANDLED_ERROR = (\<lambda>rv. rv = - 14),
      is_pipefs_mount_id = (\<lambda>m. m = 7),
      fill_process_context = (\<lambda>t. (unat t, unat t)),
      fill_container_context = (\<lambda>h. h),
      fill_span_context = (\<lambda>t. 0),
      basename_approver = (\<lambda>sc d ty. if d = 0 then 0 else 1),
      max_entries = 2\<rparr>"

definition scenario_record :: "uid_t \<Rightarrow> gid_t \<Rightarrow> u32 \<Rightarrow> syscall_cache_t" where
  "scenario_record u g m =
     \<lparr>type = EVENT_CHOWN, policy = \<lparr>mode = 1\<rparr>,
      setattr = \<lparr>dentry = 0, setattr_t.file = \<lparr>path_key = \<lparr>mount_id = m\<rparr>\<rparr>, user = u, group = g\<rparr>\<rparr>"

definition scenario_state :: "(nat, nat, nat) probe_state" where
  "scenario_state = \<lparr>syscalls = [], emitted = []\<rparr>"

section \<open>Properties of the correlation table\<close>

lemma map_of_cache_syscall_same:
  "0 < cap \<Longrightarrow> map_of (cache_syscall cap t r tbl) t = Some r"
  by (cases cap) (simp_all add: cache_syscall_def)

lemma map_of_delete_same: "map_of (AList.delete t tbl) t = None"
  by (simp add: delete_conv')

lemma delete_cache_syscall_same:
  "AList.delete t (cache_syscall cap t r tbl) = take (cap - 1) (AList.delete t tbl)"
proof (cases cap)
  case 0
  then show ?thesis by (simp add: cache_syscall_def)
next
  case (Suc n)
  have "AList.delete t (take n (AList.delete t tbl)) = take n (AList.delete t tbl)"
  proof (rule delete_id)
    have "fst ` set (take n (AList.delete t tbl)) \<subseteq> fst ` set (AList.delete t tbl)"
      by (intro image_mono set_take_subset)
    then show "t \<notin> fst ` set (take n (AList.delete t tbl))"
      using delete_notin_dom [of t tbl] by blast
  qed
  with Suc show ?thesis by (simp add: cache_syscall_def)
qed

lemma pop_syscall_absent:
  "map_of tbl t = None \<Longrightarrow> pop_syscall ty t tbl = (None, tbl)"
  by (simp add: pop_syscall_def)

lemma pop_syscall_twice: "fst (pop_syscall ty t (snd (pop_syscall ty t tbl))) = None"
proof (cases "map_of tbl t")
  case None
  then show ?thesis by (simp add: pop_syscall_def)
next
  case (Some r)
  then show ?thesis
    by (cases "type r = ty") (simp_all add: pop_syscall_def map_of_delete_same)
qed

lemma map_of_take_None:
  "map_of xs k = None \<Longrightarrow> map_of (take n xs) k = None"
proof -
  assume "map_of xs k = None"
  then have "k \<notin> fst ` set xs" by (simp add: map_of_eq_None_iff)
  moreover have "fst ` set (take n xs) \<subseteq> fst ` set xs"
    by (intro image_mono set_take_subset)
  ultimately have "k \<notin> fst ` set (take n xs)" by blast
  then show ?thesis by (simp add: map_of_eq_None_iff)
qed

lemma apply_table_op_absent:
  "\<not> is_push_for t x \<Longrightarrow> map_of tbl t = None \<Longrightarrow> map_of (apply_table_op cap x tbl) t = None"
proof (cases x)
  case (Push t' r)
  assume "\<not> is_push_for t x" and none: "map_of tbl t = None"
  with Push have ne: "t \<noteq> t'" by simp
  then have "map_of ((t', r) # AList.delete t' tbl) t = None"
    using none by simp
  then show ?thesis
    using Push by (simp add: cache_syscall_def map_of_take_None del: map_of.simps)
next
  case (Pop t' ty)
  assume none: "map_of tbl t = None"
  show ?thesis
  proof (cases "t' = t")
    case True
    with Pop none show ?thesis by (simp add: pop_syscall_def)
  next
    case False
    with Pop none show ?thesis
      by (simp add: pop_syscall_def split: option.splits)
  qed
qed

lemma run_table_ops_absent:
  "\<forall>x \<in> set ops. \<not> is_push_for t x \<Longrightarrow> map_of tbl t = None \<Longrightarrow>
   map_of (run_table_ops cap ops tbl) t = None"
  by (induction ops arbitrary: tbl) (simp_all add: apply_table_op_absent)

lemma length_cache_syscall: "length (cache_syscall cap t r tbl) \<le> Suc (length tbl)"
proof -
  have "length (AList.delete t tbl) \<le> length tbl" by (rule length_delete_le)
  then show ?thesis by (simp add: cache_syscall_def)
qed

lemma length_pop_syscall: "length (snd (pop_syscall ty t tbl)) \<le> length tbl"
  by (simp add: pop_syscall_def length_delete_le split: option.splits)

lemma length_apply_table_op: "length (apply_table_op cap x tbl) \<le> Suc (length tbl)"
proof (cases x)
  case (Push t r)
  then show ?thesis by (simp add: length_cache_syscall)
next
  case (Pop t ty)
  then show ?thesis using length_pop_syscall [of ty t tbl] by simp
qed

lemma map_of_pop_syscall_other:
  "t' \<noteq> t \<Longrightarrow> map_of (snd (pop_syscall ty t tbl)) t' = map_of tbl t'"
  by (simp add: pop_syscall_def split: option.splits)

lemma map_of_cache_syscall_other:
  assumes "t' \<noteq> t" and "length (AList.delete t tbl) < cap"
  shows "map_of (cache_syscall cap t r tbl) t' = map_of tbl t'"
proof -
  have "take cap ((t, r) # AList.delete t tbl) = (t, r) # AList.delete t tbl"
    using assms(2) by simp
  then show ?thesis using assms(1) by (simp add: cache_syscall_def)
qed

lemma length_delete_less:
  "t \<in> fst ` set tbl \<Longrightarrow> length (AList.delete t tbl) < length tbl"
proof (induction tbl)
  case Nil
  then show ?case by simp
next
  case (Cons x xs)
  show ?case
  proof (cases "fst x = t")
    case True
    then show ?thesis
      using length_delete_le [of t xs] by (cases x) simp
  next
    case False
    with Cons.prems have "t \<in> fst ` set xs" by auto
    then have "length (AList.delete t xs) < length xs" by (rule Cons.IH)
    with False show ?thesis by (cases x) simp
  qed
qed

lemma map_of_take_cases: "map_of (take n xs) k = None \<or> map_of (take n xs) k = map_of xs k"
proof (induction xs arbitrary: n)
  case Nil
  then show ?case by simp
next
  case (Cons x xs)
  then show ?case by (cases n) auto
qed

lemma map_of_cache_syscall_other_cases:
  assumes "t' \<noteq> t"
  shows "map_of (cache_syscall cap t r tbl) t' = None \<or>
         map_of (cache_syscall cap t r tbl) t' = map_of tbl t'"
proof -
  have "map_of ((t, r) # AList.delete t tbl) t' = map_of tbl t'"
    using assms by simp
  then show ?thesis
    using map_of_take_cases [of cap "(t, r) # AList.delete t tbl" t']
    by (simp add: cache_syscall_def del: map_of.simps)
qed

lemma map_of_apply_table_op_other:
  assumes "task_of x \<noteq> t" and "Suc (length tbl) \<le> cap"
  shows "map_of (apply_table_op cap x tbl) t = map_of tbl t"
proof (cases x)
  case (Push t' r)
  have "length (AList.delete t' tbl) < cap"
    using length_delete_le [of t' tbl] assms(2) by simp
  with Push assms(1) show ?thesis by (simp add: map_of_cache_syscall_other)
next
  case (Pop t' ty)
  with assms(1) show ?thesis by (simp add: map_of_pop_syscall_other)
qed

lemma map_of_run_table_ops_other:
  "\<forall>x \<in> set ops. task_of x \<noteq> t \<Longrightarrow> length tbl + length ops \<le> cap \<Longrightarrow>
   map_of (run_table_ops cap ops tbl) t = map_of tbl t"
proof (induction ops arbitrary: tbl)
  case Nil
  then show ?case by simp
next
  case (Cons x xs)
  have len: "length (apply_table_op cap x tbl) + length xs \<le> cap"
    using length_apply_table_op [of cap x tbl] Cons.prems(2) by simp
  have "map_of (run_table_ops cap xs (apply_table_op cap x tbl)) t = map_of (apply_table_op cap x tbl) t"
    using Cons.prems(1) len by (intro Cons.IH) simp_all
  also have "\<dots> = map_of tbl t"
    using Cons.prems by (intro map_of_apply_table_op_other) simp_all
  finally show ?case by simp
qed

lemma table_inv_cache_syscall: "table_inv cap tbl \<Longrightarrow> table_inv cap (cache_syscall cap t r tbl)"
proof -
  assume "table_inv cap tbl"
  then have d: "distinct (map fst tbl)" by (simp add: table_inv_def)
  have "distinct (map fst ((t, r) # AList.delete t tbl))"
    using d delete_notin_dom [of t tbl] by (simp add: distinct_delete)
  then have "distinct (map fst (take cap ((t, r) # AList.delete t tbl)))"
    unfolding take_map [symmetric] by (rule distinct_take)
  then show ?thesis by (simp add: table_inv_def cache_syscall_def del: take_Cons')
qed

lemma table_inv_pop_syscall: "table_inv cap tbl \<Longrightarrow> table_inv cap (snd (pop_syscall ty t tbl))"
proof -
  assume inv: "table_inv cap tbl"
  have "length (snd (pop_syscall ty t tbl)) \<le> cap"
    using length_pop_syscall [of ty t tbl] inv by (simp add: table_inv_def)
  moreover have "distinct (map fst (snd (pop_syscall ty t tbl)))"
    using inv by (simp add: pop_syscall_def table_inv_def distinct_delete split: option.splits)
  ultimately show ?thesis by (simp add: table_inv_def)
qed

lemma table_inv_run_table_ops: "table_inv cap tbl \<Longrightarrow> table_inv cap (run_table_ops cap ops tbl)"
proof (induction ops arbitrary: tbl)
  case Nil
  then show ?case by simp
next
  case (Cons x xs)
  have "table_inv cap (apply_table_op cap x tbl)"
    using Cons.prems by (cases x) (simp_all add: table_inv_cache_syscall table_inv_pop_syscall)
  then show ?case by (simp add: Cons.IH)
qed

lemma map_of_apply_table_op_origin:
  "map_of (apply_table_op cap x tbl) t = Some r \<Longrightarrow> x = Push t r \<or> map_of tbl t = Some r"
proof (cases x)
  case (Push t' r')
  assume a: "map_of (apply_table_op cap x tbl) t = Some r"
  show ?thesis
  proof (cases "t' = t")
    case True
    have "map_of (take cap ((t, r') # AList.delete t tbl)) t = Some r"
      using a Push True by (simp add: cache_syscall_def)
    then have "map_of ((t, r') # AList.delete t tbl) t = Some r"
      using map_of_take_cases [of cap "(t, r') # AList.delete t tbl" t] by auto
    then have "r' = r" by simp
    with Push True show ?thesis by simp
  next
    case False
    then have "map_of (cache_syscall cap t' r' tbl) t = None \<or>
        map_of (cache_syscall cap t' r' tbl) t = map_of tbl t"
      by (intro map_of_cache_syscall_other_cases) simp
    with a Push show ?thesis by auto
  qed
next
  case (Pop t' ty)
  assume a: "map_of (apply_table_op cap x tbl) t = Some r"
  show ?thesis
  proof (cases "t' = t")
    case True
    with a Pop show ?thesis
      by (auto simp: pop_syscall_def map_of_delete_same split: option.splits if_splits)
  next
    case False
    with a Pop show ?thesis by (simp add: map_of_pop_syscall_other)
  qed
qed

lemma map_of_run_table_ops_origin:
  "map_of (run_table_ops cap ops tbl) t = Some r \<Longrightarrow> Push t r \<in> set ops \<or> map_of tbl t = Some r"
proof (induction ops arbitrary: tbl)
  case Nil
  then show ?case by simp
next
  case (Cons x xs)
  from Cons.prems have "map_of (run_table_ops cap xs (apply_table_op cap x tbl)) t = Some r"
    by simp
  then have "Push t r \<in> set xs \<or> map_of (apply_table_op cap x tbl) t = Some r"
    by (rule Cons.IH)
  then show ?case
    using map_of_apply_table_op_origin [of cap x tbl t r] by auto
qed

section \<open>Properties of the probes\<close>

lemma sint_long_to_int: "sint (long_to_int w) = signed_take_bit 31 (sint w)"
proof -
  have "sint (ucast w :: s32) = signed_take_bit 31 (uint (ucast w :: s32))"
    by (simp add: sint_uint)
  also have "\<dots> = signed_take_bit 31 (take_bit 32 (uint w))"
    by (simp add: unsigned_ucast_eq)
  also have "\<dots> = signed_take_bit 31 (uint w)"
    by (simp add: signed_take_bit_take_bit)
  also have "\<dots> = signed_take_bit 31 (signed_take_bit 63 (uint w))"
    by (simp add: signed_take_bit_signed_take_bit)
  also have "\<dots> = signed_take_bit 31 (sint w)"
    by (simp add: sint_uint)
  finally show ?thesis by (simp add: long_to_int_def)
qed

lemma sint_long_to_int_in_range:
  "- (2 ^ 31) \<le> sint w \<Longrightarrow> sint w < 2 ^ 31 \<Longrightarrow> sint (long_to_int w) = sint w"
  by (simp add: sint_long_to_int signed_take_bit_int_eq_self_iff)






lemma syscall_entry_eq: "syscall_entry env t v u g s = trace__sys_chown env t u g s"
  by (cases v)
     (simp_all add: kprobe_lchown_def kprobe_fchown_def kprobe_chown_def kprobe_lchown16_def
        kprobe_fchown16_def kprobe_chown16_def kprobe_fchownat_def)

lemma sys_chown_ret_ctx: "sys_chown_ret env t ctx rv s = sys_chown_ret env t () rv s"
  by (simp add: sys_chown_ret_def send_event_def Let_def split: prod.splits option.splits)

lemma syscall_exit_eq:
  "syscall_exit env t v trig s = sys_chown_ret env t () (long_to_int (raw_return trig)) s"
proof (cases trig)
  case (Kretprobe ctx)
  then show ?thesis
    by (cases v)
       (simp_all add: kretprobe_lchown_def kretprobe_fchown_def kretprobe_chown_def
          kretprobe_lchown16_def kretprobe_fchown16_def kretprobe_chown16_def
          kretprobe_fchownat_def kprobe_sys_chown_ret_def PT_REGS_RC_def
          sys_chown_ret_ctx [of env t ctx])
next
  case (Tracepoint args)
  then show ?thesis
    by (cases v)
       (simp_all add: tracepoint_syscalls_sys_exit_lchown_def
          tracepoint_syscalls_sys_exit_fchown_def tracepoint_syscalls_sys_exit_chown_def
          tracepoint_syscalls_sys_exit_lchown16_def tracepoint_syscalls_sys_exit_fchown16_def
          tracepoint_syscalls_sys_exit_chown16_def tracepoint_syscalls_sys_exit_fchownat_def
          sys_chown_ret_ctx [of env t args])
next
  case (Raw_tracepoint args)
  then show ?thesis
    by (simp add: tracepoint_handle_sys_chown_exit_def sys_chown_ret_ctx [of env t args])
qed

lemma sys_chown_ret_absent:
  "fst (pop_syscall EVENT_CHOWN t (syscalls s)) = None \<Longrightarrow> sys_chown_ret env t ctx rv s = (0, s)"
  by (cases "pop_syscall EVENT_CHOWN t (syscalls s)") (simp add: sys_chown_ret_def)

lemma pop_syscall_present:
  "map_of tbl t = Some r \<Longrightarrow> type r = ty \<Longrightarrow> pop_syscall ty t tbl = (Some r, AList.delete t tbl)"
  by (simp add: pop_syscall_def)




lemma trace__sys_chown_cached:
  "\<not> is_discarded_by_process env t (mode (fetch_policy env EVENT_CHOWN)) EVENT_CHOWN \<Longrightarrow>
   trace__sys_chown env t u g s =
     (0, s\<lparr>syscalls := cache_syscall (max_entries env) t
              \<lparr>type = EVENT_CHOWN, policy = fetch_policy env EVENT_CHOWN,
               setattr = \<lparr>dentry = 0, setattr_t.file = zero_file, user = u, group = g\<rparr>\<rparr>
              (syscalls s)\<rparr>)"
  by (simp add: trace__sys_chown_def)

lemma sys_chown_ret_popped:
  "pop_syscall EVENT_CHOWN t (syscalls s) = (Some r, tbl) \<Longrightarrow>
   sys_chown_ret env t ctx rv s =
     (0, if IS_UNHANDLED_ERROR env rv \<or> is_pipefs_mount_id env (mount_id (path_key (setattr_t.file (setattr r))))
         then s\<lparr>syscalls := tbl\<rparr>
         else s\<lparr>syscalls := tbl,
                emitted := emitted s @
                  [(EVENT_CHOWN,
                    \<lparr>event = \<lparr>async = 0\<rparr>, process = fst (fill_process_context env t),
                     span = fill_span_context env t,
                     container = fill_container_context env (snd (fill_process_context env t)),
                     syscall = \<lparr>retval = rv\<rparr>,
                     chown_event_t.file = setattr_t.file (setattr r),
                     uid = user (setattr r), gid = group (setattr r)\<rparr>)]\<rparr>)"
  by (simp add: sys_chown_ret_def send_event_def Let_def split: prod.splits)

lemma sys_chown_ret_emitted:
  "\<exists>new. emitted (snd (sys_chown_ret env t ctx rv s)) = emitted s @ new \<and> length new \<le> 1 \<and>
     (\<forall>x \<in> set new. fst x = EVENT_CHOWN \<and> retval (syscall (snd x)) = rv)"
proof (cases "pop_syscall EVENT_CHOWN t (syscalls s)")
  case (Pair ro tbl)
  show ?thesis
  proof (cases ro)
    case None
    with Pair have "sys_chown_ret env t ctx rv s = (0, s)"
      by (simp add: sys_chown_ret_absent)
    then show ?thesis by simp
  next
    case (Some r)
    with Pair have "pop_syscall EVENT_CHOWN t (syscalls s) = (Some r, tbl)" by simp
    then show ?thesis by (simp add: sys_chown_ret_popped)
  qed
qed

lemma emitted_syscall_entry: "emitted (snd (syscall_entry env t v u g s)) = emitted s"
  by (simp add: syscall_entry_eq trace__sys_chown_def Let_def)

lemma sys_chown_ret_clears:
  "fst (pop_syscall EVENT_CHOWN t (syscalls (snd (sys_chown_ret env t ctx rv s)))) = None"
proof (cases "pop_syscall EVENT_CHOWN t (syscalls s)")
  case (Pair ro tbl)
  show ?thesis
  proof (cases ro)
    case None
    with Pair show ?thesis by (simp add: sys_chown_ret_def)
  next
    case (Some r)
    have "tbl = snd (pop_syscall EVENT_CHOWN t (syscalls s))"
      using Pair by simp
    then have "fst (pop_syscall EVENT_CHOWN t tbl) = None"
      by (simp add: pop_syscall_twice)
    with Pair Some show ?thesis
      by (simp add: sys_chown_ret_def send_event_def Let_def split: prod.splits)
  qed
qed

text \<open>
  The exit probe on tables that differ in policy snapshots only.
\<close>

lemma map_of_erase_policy:
  "map_of (erase_policy tbl) t = map_option (\<lambda>r. r\<lparr>policy := \<lparr>mode = 0\<rparr>\<rparr>) (map_of tbl t)"
  by (simp add: erase_policy_def map_of_map)

lemma delete_erase_policy: "AList.delete t (erase_policy tbl) = erase_policy (AList.delete t tbl)"
  by (induction tbl) (auto simp: erase_policy_def)

lemma pop_syscall_erase_policy:
  "pop_syscall ty t (erase_policy tbl) =
     (map_option (\<lambda>r. r\<lparr>policy := \<lparr>mode = 0\<rparr>\<rparr>) (fst (pop_syscall ty t tbl)),
      erase_policy (snd (pop_syscall ty t tbl)))"
  by (cases "map_of tbl t")
     (simp_all add: pop_syscall_def map_of_erase_policy delete_erase_policy)

lemma erased_record_setattr:
  "r\<lparr>policy := p\<rparr> = r'\<lparr>policy := p\<rparr> \<Longrightarrow> setattr r = setattr r'"
proof -
  assume "r\<lparr>policy := p\<rparr> = r'\<lparr>policy := p\<rparr>"
  then have "setattr (r\<lparr>policy := p\<rparr>) = setattr (r'\<lparr>policy := p\<rparr>)" by simp
  then show ?thesis by simp
qed

lemma sys_chown_ret_erase_policy:
  assumes tbl: "erase_policy (syscalls s) = erase_policy (syscalls s')"
    and ev: "emitted s = emitted s'"
  shows "fst (sys_chown_ret env t ctx rv s) = fst (sys_chown_ret env t ctx rv s')
     \<and> emitted (snd (sys_chown_ret env t ctx rv s)) = emitted (snd (sys_chown_ret env t ctx rv s'))
     \<and> erase_policy (syscalls (snd (sys_chown_ret env t ctx rv s))) =
         erase_policy (syscalls (snd (sys_chown_ret env t ctx rv s')))"
proof -
  obtain ro tbl1 where p1: "pop_syscall EVENT_CHOWN t (syscalls s) = (ro, tbl1)"
    by (cases "pop_syscall EVENT_CHOWN t (syscalls s)")
  obtain ro' tbl2 where p2: "pop_syscall EVENT_CHOWN t (syscalls s') = (ro', tbl2)"
    by (cases "pop_syscall EVENT_CHOWN t (syscalls s')")
  have "pop_syscall EVENT_CHOWN t (erase_policy (syscalls s)) =
      pop_syscall EVENT_CHOWN t (erase_policy (syscalls s'))"
    using tbl by simp
  then have opt: "map_option (\<lambda>r. r\<lparr>policy := \<lparr>mode = 0\<rparr>\<rparr>) ro = map_option (\<lambda>r. r\<lparr>policy := \<lparr>mode = 0\<rparr>\<rparr>) ro'"
    and rest: "erase_policy tbl1 = erase_policy tbl2"
    by (simp_all add: pop_syscall_erase_policy p1 p2)
  show ?thesis
  proof (cases ro)
    case None
    with opt have "ro' = None" by simp
    with None p1 p2 have "sys_chown_ret env t ctx rv s = (0, s)" "sys_chown_ret env t ctx rv s' = (0, s')"
      by (simp_all add: sys_chown_ret_absent)
    with tbl ev show ?thesis by simp
  next
    case (Some r)
    with opt obtain r' where r': "ro' = Some r'" and eq: "r\<lparr>policy := \<lparr>mode = 0\<rparr>\<rparr> = r'\<lparr>policy := \<lparr>mode = 0\<rparr>\<rparr>"
      by (cases ro') auto
    have sa: "setattr r = setattr r'"
      using eq by (rule erased_record_setattr)
    have q1: "pop_syscall EVENT_CHOWN t (syscalls s) = (Some r, tbl1)"
      using p1 Some by simp
    have q2: "pop_syscall EVENT_CHOWN t (syscalls s') = (Some r', tbl2)"
      using p2 r' by simp
    show ?thesis
      by (simp add: sys_chown_ret_popped [OF q1] sys_chown_ret_popped [OF q2] sa rest ev)
  qed
qed

























text \<open>The definitions a scenario unfolds to evaluate.\<close>

lemmas scenario_defs =
  scenario_env_def scenario_record_def scenario_state_def zero_file_def chown_call_def
  kprobe_lchown_def kprobe_fchown_def kprobe_chown_def kprobe_lchown16_def
  kprobe_fchown16_def kprobe_chown16_def kprobe_fchownat_def
  kretprobe_lchown_def kretprobe_fchown_def kretprobe_chown_def kretprobe_lchown16_def
  kretprobe_fchown16_def kretprobe_chown16_def kretprobe_fchownat_def
  tracepoint_syscalls_sys_exit_lchown_def
  tracepoint_syscalls_sys_exit_fchown_def tracepoint_syscalls_sys_exit_chown_def
  tracepoint_syscalls_sys_exit_lchown16_def tracepoint_syscalls_sys_exit_fchown16_def
  tracepoint_syscalls_sys_exit_chown16_def tracepoint_syscalls_sys_exit_fchownat_def
  tracepoint_handle_sys_chown_exit_def kprobe_sys_chown_ret_def PT_REGS_RC_def
  trace__sys_chown_def sys_chown_ret_def send_event_def cache_syscall_def pop_syscall_def
  resolve_setattr_def chown_approvers_def chown_call_interleaved_def long_to_int_def Let_def

section \<open>The claims about the correlation table\<close>

text \<open>
  Claim C4. A push for task \<open>t\<close> followed by a pop for \<open>t\<close> returns the record pushed,
  whole, and frees the slot; this also holds after operations of other tasks that fit
  the capacity. A pop for a task that never pushed returns none and leaves the table as
  it was. A second pop for the same task and event type returns none. The table has
  room for at least one record (\<open>0 < cap\<close>).
\<close>

theorem correlation_push_pop:
  "(0 < cap \<longrightarrow>
      pop_syscall (type r) t (cache_syscall cap t r tbl) = (Some r, take (cap - 1) (AList.delete t tbl)))
   \<and> ((\<forall>x \<in> set ops. task_of x \<noteq> t) \<and> 0 < cap \<and> length (cache_syscall cap t r tbl) + length ops \<le> cap \<longrightarrow>
      fst (pop_syscall (type r) t (run_table_ops cap ops (cache_syscall cap t r tbl))) = Some r)
   \<and> ((\<forall>x \<in> set ops. \<not> is_push_for t x) \<longrightarrow>
      pop_syscall ty t (run_table_ops cap ops []) = (None, run_table_ops cap ops []))
   \<and> (map_of tbl t = None \<longrightarrow> pop_syscall ty t tbl = (None, tbl))
   \<and> fst (pop_syscall ty t (snd (pop_syscall ty t tbl))) = None"
proof (intro conjI impI)
  assume "0 < cap"
  then have "map_of (cache_syscall cap t r tbl) t = Some r"
    by (rule map_of_cache_syscall_same)
  then show "pop_syscall (type r) t (cache_syscall cap t r tbl) =
      (Some r, take (cap - 1) (AList.delete t tbl))"
    by (simp add: pop_syscall_present delete_cache_syscall_same)
next
  assume a: "(\<forall>x \<in> set ops. task_of x \<noteq> t) \<and> 0 < cap \<and>
      length (cache_syscall cap t r tbl) + length ops \<le> cap"
  then have "map_of (run_table_ops cap ops (cache_syscall cap t r tbl)) t =
      map_of (cache_syscall cap t r tbl) t"
    by (intro map_of_run_table_ops_other) simp_all
  also have "\<dots> = Some r"
    using a by (simp add: map_of_cache_syscall_same)
  finally show "fst (pop_syscall (type r) t (run_table_ops cap ops (cache_syscall cap t r tbl))) = Some r"
    by (simp add: pop_syscall_present)
next
  assume "\<forall>x \<in> set ops. \<not> is_push_for t x"
  then have "map_of (run_table_ops cap ops []) t = None"
    by (rule run_table_ops_absent) simp
  then show "pop_syscall ty t (run_table_ops cap ops []) = (None, run_table_ops cap ops [])"
    by (rule pop_syscall_absent)
next
  assume "map_of tbl t = None"
  then show "pop_syscall ty t tbl = (None, tbl)"
    by (rule pop_syscall_absent)
next
  show "fst (pop_syscall ty t (snd (pop_syscall ty t tbl))) = None"
    by (rule pop_syscall_twice)
qed

text \<open>The same at task 5 in a table of two slots, task 6 pushing in between.\<close>

theorem correlation_push_pop_witness:
  "0 < (2::nat)
   \<and> pop_syscall EVENT_CHOWN 5 (cache_syscall 2 5 (scenario_record 1000 1000 0) []) =
       (Some (scenario_record 1000 1000 0), [])
   \<and> fst (pop_syscall EVENT_CHOWN 5
        (run_table_ops 2 [Push 6 (scenario_record 0 0 0)] (cache_syscall 2 5 (scenario_record 1000 1000 0) []))) =
       Some (scenario_record 1000 1000 0)
   \<and> pop_syscall EVENT_CHOWN 5 (run_table_ops 2 [Push 6 (scenario_record 0 0 0)] []) =
       (None, [(6, scenario_record 0 0 0)])
   \<and> fst (pop_syscall EVENT_CHOWN 5 (snd (pop_syscall EVENT_CHOWN 5 []))) = None"
  using correlation_push_pop [of 2 "scenario_record 1000 1000 0" 5 "[]"
      "[Push 6 (scenario_record 0 0 0)]" EVENT_CHOWN]
  by (simp add: scenario_record_def cache_syscall_def pop_syscall_def)

text \<open>
  Claim C8 says that a push for one task leaves every other task's slot unchanged.
  In a full table it does not: with two slots taken by tasks 5 and 4, a push for task 6
  evicts the oldest record, the one of task 4.
\<close>

theorem correlation_eviction_counterexample:
  "table_inv 2 [(5, scenario_record 1 1 0), (4, scenario_record 2 2 0)]
   \<and> map_of [(5 :: task_id, scenario_record 1 1 0), (4, scenario_record 2 2 0)] 4 = Some (scenario_record 2 2 0)
   \<and> map_of (cache_syscall 2 6 (scenario_record 0 0 0)
        [(5, scenario_record 1 1 0), (4, scenario_record 2 2 0)]) 4 = None"
  by (simp add: table_inv_def cache_syscall_def)

text \<open>
  Claim C8, amended. The table holds at most one record per task and at most \<open>cap\<close>
  records, in every table reachable from the empty one. A push for a task overwrites
  what its slot held. A pop for task \<open>t\<close> leaves every other slot unchanged; so does a
  push for \<open>t\<close> when \<open>t\<close> already holds a slot or the table is not full. In a full
  table a push for a new task evicts the oldest record, the last of the list, and even
  then another task's slot holds afterwards either what it held or nothing. A record found in the slot of
  \<open>t\<close> was pushed by \<open>t\<close>: no task observes the record of another.
\<close>

theorem correlation_table_isolation:
  "(table_inv cap tbl \<longrightarrow>
      table_inv cap (cache_syscall cap t r tbl) \<and> table_inv cap (snd (pop_syscall ty t tbl)))
   \<and> table_inv cap (run_table_ops cap ops [])
   \<and> (0 < cap \<longrightarrow> map_of (cache_syscall cap t r tbl) t = Some r)
   \<and> (t' \<noteq> t \<longrightarrow> map_of (snd (pop_syscall ty t tbl)) t' = map_of tbl t')
   \<and> (t' \<noteq> t \<and> (length tbl < cap \<or> t \<in> fst ` set tbl \<and> length tbl \<le> cap) \<longrightarrow>
        map_of (cache_syscall cap t r tbl) t' = map_of tbl t')
   \<and> (t' \<noteq> t \<longrightarrow>
        map_of (cache_syscall cap t r tbl) t' = None \<or>
        map_of (cache_syscall cap t r tbl) t' = map_of tbl t')
   \<and> (map_of (run_table_ops cap ops []) t = Some r' \<longrightarrow> Push t r' \<in> set ops)
   \<and> (0 < cap \<and> length tbl = cap \<and> t \<notin> fst ` set tbl \<longrightarrow>
        cache_syscall cap t r tbl = (t, r) # butlast tbl)"
proof (intro conjI impI)
  assume "table_inv cap tbl"
  then show "table_inv cap (cache_syscall cap t r tbl)"
    by (rule table_inv_cache_syscall)
next
  assume "table_inv cap tbl"
  then show "table_inv cap (snd (pop_syscall ty t tbl))"
    by (rule table_inv_pop_syscall)
next
  have "table_inv cap []" by (simp add: table_inv_def)
  then show "table_inv cap (run_table_ops cap ops [])"
    by (rule table_inv_run_table_ops)
next
  assume "0 < cap"
  then show "map_of (cache_syscall cap t r tbl) t = Some r"
    by (rule map_of_cache_syscall_same)
next
  assume "t' \<noteq> t"
  then show "map_of (snd (pop_syscall ty t tbl)) t' = map_of tbl t'"
    by (rule map_of_pop_syscall_other)
next
  assume a: "t' \<noteq> t \<and> (length tbl < cap \<or> t \<in> fst ` set tbl \<and> length tbl \<le> cap)"
  have "length (AList.delete t tbl) < cap"
  proof (cases "length tbl < cap")
    case True
    then show ?thesis using length_delete_le [of t tbl] by simp
  next
    case False
    with a have "t \<in> fst ` set tbl" and "length tbl \<le> cap" by simp_all
    then show ?thesis using length_delete_less [of t tbl] by simp
  qed
  with a show "map_of (cache_syscall cap t r tbl) t' = map_of tbl t'"
    by (simp add: map_of_cache_syscall_other)
next
  assume "t' \<noteq> t"
  then show "map_of (cache_syscall cap t r tbl) t' = None \<or>
      map_of (cache_syscall cap t r tbl) t' = map_of tbl t'"
    by (rule map_of_cache_syscall_other_cases)
next
  assume "map_of (run_table_ops cap ops []) t = Some r'"
  then have "Push t r' \<in> set ops \<or> map_of [] t = Some r'"
    by (rule map_of_run_table_ops_origin)
  then show "Push t r' \<in> set ops" by simp
next
  assume a: "0 < cap \<and> length tbl = cap \<and> t \<notin> fst ` set tbl"
  then have "AList.delete t tbl = tbl" by simp
  moreover have "take (cap - 1) tbl = butlast tbl"
    using a by (simp add: butlast_conv_take)
  ultimately show "cache_syscall cap t r tbl = (t, r) # butlast tbl"
    using a by (cases cap) (simp_all add: cache_syscall_def)
qed

text \<open>The same at tasks 5 and 6 in a table of two slots.\<close>

theorem correlation_table_isolation_witness:
  "table_inv 2 [(5, scenario_record 1 1 0)]
   \<and> table_inv 2 (cache_syscall 2 6 (scenario_record 0 0 0) [(5, scenario_record 1 1 0)])
   \<and> table_inv 2 (snd (pop_syscall EVENT_CHOWN 6 [(5, scenario_record 1 1 0)]))
   \<and> map_of (cache_syscall 2 6 (scenario_record 0 0 0) [(5, scenario_record 1 1 0)]) 6 =
       Some (scenario_record 0 0 0)
   \<and> map_of (snd (pop_syscall EVENT_CHOWN 6 [(5, scenario_record 1 1 0)])) 5 = Some (scenario_record 1 1 0)
   \<and> map_of (cache_syscall 2 6 (scenario_record 0 0 0) [(5, scenario_record 1 1 0)]) 5 =
       Some (scenario_record 1 1 0)
   \<and> map_of (run_table_ops 2 [Push 6 (scenario_record 0 0 0), Push 5 (scenario_record 1 1 0)] []) 6 =
       Some (scenario_record 0 0 0)
   \<and> Push 6 (scenario_record 0 0 0) \<in> set [Push 6 (scenario_record 0 0 0), Push 5 (scenario_record 1 1 0)]
   \<and> cache_syscall 2 6 (scenario_record 0 0 0) [(5, scenario_record 1 1 0), (4, scenario_record 2 2 0)] =
       [(6, scenario_record 0 0 0), (5, scenario_record 1 1 0)]"
  using correlation_table_isolation [of 2 "[(5, scenario_record 1 1 0)]" 6 "scenario_record 0 0 0"
      EVENT_CHOWN "[Push 6 (scenario_record 0 0 0), Push 5 (scenario_record 1 1 0)]" 5 "scenario_record 0 0 0"]
    correlation_table_isolation [of 2 "[(5, scenario_record 1 1 0), (4, scenario_record 2 2 0)]" 6
      "scenario_record 0 0 0" EVENT_CHOWN "[]" 5 "scenario_record 0 0 0"]
  by (simp add: table_inv_def cache_syscall_def pop_syscall_def)

section \<open>The claims about the probes\<close>






text \<open>
  Claim C3. Each of the seven entry probes is \<^verbatim>\<open>trace__sys_chown\<close> on its user and group
  arguments. Each exit probe, return probe or tracepoint of any variant, and the
  raw-syscalls exit tracepoint, is \<^verbatim>\<open>sys_chown_ret\<close> on the raw return value converted to
  \<^verbatim>\<open>int\<close>; the conversion keeps every value that fits an \<^verbatim>\<open>int\<close>.
\<close>

theorem chown_probes_fan_in:
  "kprobe_lchown env t filename u g s = trace__sys_chown env t u g s
   \<and> kprobe_fchown env t fd u g s = trace__sys_chown env t u g s
   \<and> kprobe_chown env t filename u g s = trace__sys_chown env t u g s
   \<and> kprobe_lchown16 env t filename u g s = trace__sys_chown env t u g s
   \<and> kprobe_fchown16 env t fd u g s = trace__sys_chown env t u g s
   \<and> kprobe_chown16 env t filename u g s = trace__sys_chown env t u g s
   \<and> kprobe_fchownat env t dirfd filename u g s = trace__sys_chown env t u g s
   \<and> kretprobe_lchown env t ctx s = sys_chown_ret env t ctx (long_to_int (PT_REGS_RC ctx)) s
   \<and> kretprobe_fchown env t ctx s = sys_chown_ret env t ctx (long_to_int (PT_REGS_RC ctx)) s
   \<and> kretprobe_chown env t ctx s = sys_chown_ret env t ctx (long_to_int (PT_REGS_RC ctx)) s
   \<and> kretprobe_lchown16 env t ctx s = sys_chown_ret env t ctx (long_to_int (PT_REGS_RC ctx)) s
   \<and> kretprobe_fchown16 env t ctx s = sys_chown_ret env t ctx (long_to_int (PT_REGS_RC ctx)) s
   \<and> kretprobe_chown16 env t ctx s = sys_chown_ret env t ctx (long_to_int (PT_REGS_RC ctx)) s
   \<and> kretprobe_fchownat env t ctx s = sys_chown_ret env t ctx (long_to_int (PT_REGS_RC ctx)) s
   \<and> tracepoint_syscalls_sys_exit_lchown env t args s =
       sys_chown_ret env t args (long_to_int (tracepoint_syscalls_sys_exit_t.ret args)) s
   \<and> tracepoint_syscalls_sys_exit_fchown env t args s =
       sys_chown_ret env t args (long_to_int (tracepoint_syscalls_sys_exit_t.ret args)) s
   \<and> tracepoint_syscalls_sys_exit_chown env t args s =
       sys_chown_ret env t args (long_to_int (tracepoint_syscalls_sys_exit_t.ret args)) s
   \<and> tracepoint_syscalls_sys_exit_lchown16 env t args s =
       sys_chown_ret env t args (long_to_int (tracepoint_syscalls_sys_exit_t.ret args)) s
   \<and> tracepoint_syscalls_sys_exit_fchown16 env t args s =
       sys_chown_ret env t args (long_to_int (tracepoint_syscalls_sys_exit_t.ret args)) s
   \<and> tracepoint_syscalls_sys_exit_chown16 env t args s =
       sys_chown_ret env t args (long_to_int (tracepoint_syscalls_sys_exit_t.ret args)) s
   \<and> tracepoint_syscalls_sys_exit_fchownat env t args s =
       sys_chown_ret env t args (long_to_int (tracepoint_syscalls_sys_exit_t.ret args)) s
   \<and> tracepoint_handle_sys_chown_exit env t raw_args s =
       sys_chown_ret env t raw_args (long_to_int (tracepoint_raw_syscalls_sys_exit_t.ret raw_args)) s
   \<and> (- (2 ^ 31) \<le> sint raw \<and> sint raw < 2 ^ 31 \<longrightarrow> sint (long_to_int raw) = sint raw)"
proof -
  have entry:
    "kprobe_lchown env t filename u g s = trace__sys_chown env t u g s"
    "kprobe_fchown env t fd u g s = trace__sys_chown env t u g s"
    "kprobe_chown env t filename u g s = trace__sys_chown env t u g s"
    "kprobe_lchown16 env t filename u g s = trace__sys_chown env t u g s"
    "kprobe_fchown16 env t fd u g s = trace__sys_chown env t u g s"
    "kprobe_chown16 env t filename u g s = trace__sys_chown env t u g s"
    "kprobe_fchownat env t dirfd filename u g s = trace__sys_chown env t u g s"
    by (simp_all add: kprobe_lchown_def kprobe_fchown_def kprobe_chown_def kprobe_lchown16_def
        kprobe_fchown16_def kprobe_chown16_def kprobe_fchownat_def)
  have ret: "kprobe_sys_chown_ret env t ctx s = sys_chown_ret env t ctx (long_to_int (PT_REGS_RC ctx)) s"
    by (simp add: kprobe_sys_chown_ret_def)
  have kret:
    "kretprobe_lchown env t ctx s = sys_chown_ret env t ctx (long_to_int (PT_REGS_RC ctx)) s"
    "kretprobe_fchown env t ctx s = sys_chown_ret env t ctx (long_to_int (PT_REGS_RC ctx)) s"
    "kretprobe_chown env t ctx s = sys_chown_ret env t ctx (long_to_int (PT_REGS_RC ctx)) s"
    "kretprobe_lchown16 env t ctx s = sys_chown_ret env t ctx (long_to_int (PT_REGS_RC ctx)) s"
    "kretprobe_fchown16 env t ctx s = sys_chown_ret env t ctx (long_to_int (PT_REGS_RC ctx)) s"
    "kretprobe_chown16 env t ctx s = sys_chown_ret env t ctx (long_to_int (PT_REGS_RC ctx)) s"
    "kretprobe_fchownat env t ctx s = sys_chown_ret env t ctx (long_to_int (PT_REGS_RC ctx)) s"
    unfolding kretprobe_lchown_def kretprobe_fchown_def kretprobe_chown_def kretprobe_lchown16_def
      kretprobe_fchown16_def kretprobe_chown16_def kretprobe_fchownat_def
    by (rule ret)+
  have tp:
    "tracepoint_syscalls_sys_exit_lchown env t args s =
       sys_chown_ret env t args (long_to_int (tracepoint_syscalls_sys_exit_t.ret args)) s"
    "tracepoint_syscalls_sys_exit_fchown env t args s =
       sys_chown_ret env t args (long_to_int (tracepoint_syscalls_sys_exit_t.ret args)) s"
    "tracepoint_syscalls_sys_exit_chown env t args s =
       sys_chown_ret env t args (long_to_int (tracepoint_syscalls_sys_exit_t.ret args)) s"
    "tracepoint_syscalls_sys_exit_lchown16 env t args s =
       sys_chown_ret env t args (long_to_int (tracepoint_syscalls_sys_exit_t.ret args)) s"
    "tracepoint_syscalls_sys_exit_fchown16 env t args s =
       sys_chown_ret env t args (long_to_int (tracepoint_syscalls_sys_exit_t.ret args)) s"
    "tracepoint_syscalls_sys_exit_chown16 env t args s =
       sys_chown_ret env t args (long_to_int (tracepoint_syscalls_sys_exit_t.ret args)) s"
    "tracepoint_syscalls_sys_exit_fchownat env t args s =
       sys_chown_ret env t args (long_to_int (tracepoint_syscalls_sys_exit_t.ret args)) s"
    "tracepoint_handle_sys_chown_exit env t raw_args s =
       sys_chown_ret env t raw_args (long_to_int (tracepoint_raw_syscalls_sys_exit_t.ret raw_args)) s"
    by (simp_all add: tracepoint_syscalls_sys_exit_lchown_def
        tracepoint_syscalls_sys_exit_fchown_def tracepoint_syscalls_sys_exit_chown_def
        tracepoint_syscalls_sys_exit_lchown16_def tracepoint_syscalls_sys_exit_fchown16_def
        tracepoint_syscalls_sys_exit_chown16_def tracepoint_syscalls_sys_exit_fchownat_def
        tracepoint_handle_sys_chown_exit_def)
  have conv: "- (2 ^ 31) \<le> sint raw \<and> sint raw < 2 ^ 31 \<longrightarrow> sint (long_to_int raw) = sint raw"
    by (simp add: sint_long_to_int_in_range)
  from entry kret tp conv show ?thesis by (intro conjI)
qed

text \<open>
  The conversion and two of the probes at \<^verbatim>\<open>-EFAULT\<close>.
\<close>

theorem chown_probes_fan_in_witness:
  "- (2 ^ 31) \<le> sint (- 14 :: u64) \<and> sint (- 14 :: u64) < 2 ^ 31
   \<and> sint (long_to_int (- 14)) = - 14
   \<and> kprobe_fchownat scenario_env 5 3 0 1000 1000 scenario_state =
       trace__sys_chown scenario_env 5 1000 1000 scenario_state
   \<and> kretprobe_fchownat scenario_env 5 \<lparr>rc = - 14\<rparr> scenario_state =
       sys_chown_ret scenario_env 5 \<lparr>rc = - 14\<rparr> (long_to_int (- 14)) scenario_state"
  using chown_probes_fan_in [of scenario_env 5 0 1000 1000 scenario_state 3 3 "\<lparr>rc = - 14\<rparr>"
      "\<lparr>tracepoint_syscalls_sys_exit_t.ret = - 14\<rparr>"
      "\<lparr>tracepoint_raw_syscalls_sys_exit_t.ret = - 14\<rparr>" "- 14"]
  by (simp add: PT_REGS_RC_def)



text \<open>
  Claim C6 says that every return value outside the unhandled error space still yields
  an event. It does not when the record is on pipefs: return value 0 is handled, the
  record of task 5 is popped, and nothing is emitted.
\<close>

theorem chown_exit_unfiltered_counterexample:
  "\<not> IS_UNHANDLED_ERROR scenario_env 0
   \<and> pop_syscall EVENT_CHOWN 5 [(5, scenario_record 1000 1000 7)] = (Some (scenario_record 1000 1000 7), [])
   \<and> emitted (snd (sys_chown_ret scenario_env 5 () 0
        \<lparr>syscalls = [(5, scenario_record 1000 1000 7)], emitted = []\<rparr>)) = []"
  by (simp add: scenario_defs)

text \<open>
  Claim C6, amended. For a popped record: a return value that \<^verbatim>\<open>IS_UNHANDLED_ERROR\<close>
  accepts drops the call with no event; any other return value, negative error codes
  included, yields the event unless the mount id of the record is pipefs; and every
  event emitted carries the raw return code in \<^verbatim>\<open>syscall.retval\<close>.
\<close>

theorem chown_exit_classification:
  "pop_syscall EVENT_CHOWN t (syscalls s) = (Some r, tbl) \<Longrightarrow>
   (IS_UNHANDLED_ERROR env rv \<longrightarrow> sys_chown_ret env t ctx rv s = (0, s\<lparr>syscalls := tbl\<rparr>))
   \<and> (\<not> IS_UNHANDLED_ERROR env rv \<and>
       \<not> is_pipefs_mount_id env (mount_id (path_key (setattr_t.file (setattr r)))) \<longrightarrow>
       sys_chown_ret env t ctx rv s =
         (0, s\<lparr>syscalls := tbl,
               emitted := emitted s @
                 [(EVENT_CHOWN,
                   \<lparr>event = \<lparr>async = 0\<rparr>, process = fst (fill_process_context env t),
                   span = fill_span_context env t,
                   container = fill_container_context env (snd (fill_process_context env t)),
                   syscall = \<lparr>retval = rv\<rparr>,
                   chown_event_t.file = setattr_t.file (setattr r),
                   uid = user (setattr r), gid = group (setattr r)\<rparr>)]\<rparr>))
   \<and> (\<forall>x \<in> set (drop (length (emitted s)) (emitted (snd (sys_chown_ret env t ctx rv s)))).
         retval (syscall (snd x)) = rv)"
proof (intro conjI impI)
  assume pop: "pop_syscall EVENT_CHOWN t (syscalls s) = (Some r, tbl)"
  {
    assume "IS_UNHANDLED_ERROR env rv"
    then show "sys_chown_ret env t ctx rv s = (0, s\<lparr>syscalls := tbl\<rparr>)"
      by (simp add: sys_chown_ret_popped [OF pop])
  }
  {
    assume "\<not> IS_UNHANDLED_ERROR env rv \<and>
       \<not> is_pipefs_mount_id env (mount_id (path_key (setattr_t.file (setattr r))))"
    then show "sys_chown_ret env t ctx rv s =
         (0, s\<lparr>syscalls := tbl,
               emitted := emitted s @
                 [(EVENT_CHOWN,
                   \<lparr>event = \<lparr>async = 0\<rparr>, process = fst (fill_process_context env t),
                   span = fill_span_context env t,
                   container = fill_container_context env (snd (fill_process_context env t)),
                   syscall = \<lparr>retval = rv\<rparr>,
                   chown_event_t.file = setattr_t.file (setattr r),
                   uid = user (setattr r), gid = group (setattr r)\<rparr>)]\<rparr>)"
      by (simp add: sys_chown_ret_popped [OF pop])
  }
  obtain new where "emitted (snd (sys_chown_ret env t ctx rv s)) = emitted s @ new"
    and "\<forall>x \<in> set new. fst x = EVENT_CHOWN \<and> retval (syscall (snd x)) = rv"
    using sys_chown_ret_emitted [of env t ctx rv s] by blast
  then show "\<forall>x \<in> set (drop (length (emitted s)) (emitted (snd (sys_chown_ret env t ctx rv s)))).
         retval (syscall (snd x)) = rv"
    by simp
qed

text \<open>
  \<^verbatim>\<open>-EFAULT\<close> is dropped and \<^verbatim>\<open>-EACCES\<close> is reported with its code, for a record on mount 3.
\<close>

theorem chown_exit_classification_witness:
  "pop_syscall EVENT_CHOWN 5 (syscalls \<lparr>syscalls = [(5, scenario_record 1000 1000 3)], emitted = []\<rparr>) =
     (Some (scenario_record 1000 1000 3), [])
   \<and> IS_UNHANDLED_ERROR scenario_env (- 14)
   \<and> sys_chown_ret scenario_env 5 () (- 14) \<lparr>syscalls = [(5, scenario_record 1000 1000 3)], emitted = []\<rparr> =
       (0, \<lparr>syscalls = [], emitted = []\<rparr>)
   \<and> \<not> IS_UNHANDLED_ERROR scenario_env (- 13)
   \<and> \<not> is_pipefs_mount_id scenario_env (mount_id (path_key (setattr_t.file (setattr (scenario_record 1000 1000 3)))))
   \<and> map (\<lambda>x. retval (syscall (snd x)))
        (emitted (snd (sys_chown_ret scenario_env 5 () (- 13)
           \<lparr>syscalls = [(5, scenario_record 1000 1000 3)], emitted = []\<rparr>))) = [- 13]"
  using chown_exit_classification [of 5 "\<lparr>syscalls = [(5, scenario_record 1000 1000 3)], emitted = []\<rparr>"
      "scenario_record 1000 1000 3" "[]" scenario_env "- 14" "()"]
    chown_exit_classification [of 5 "\<lparr>syscalls = [(5, scenario_record 1000 1000 3)], emitted = []\<rparr>"
      "scenario_record 1000 1000 3" "[]" scenario_env "- 13" "()"]
  by (simp add: scenario_defs)

text \<open>
  Claim C7. When the record popped carries a mount id classified as pipefs, the exit
  probe only frees the slot: no event is emitted, and the outcome does not depend on
  the context fillers, which are never reached.
\<close>

theorem chown_exit_pipefs:
  "pop_syscall EVENT_CHOWN t (syscalls s) = (Some r, tbl) \<Longrightarrow>
   is_pipefs_mount_id env (mount_id (path_key (setattr_t.file (setattr r)))) \<Longrightarrow>
   sys_chown_ret env t ctx rv s = (0, s\<lparr>syscalls := tbl\<rparr>)
   \<and> syscall_exit env t v trig s = (0, s\<lparr>syscalls := tbl\<rparr>)
   \<and> emitted (snd (sys_chown_ret env t ctx rv s)) = emitted s
   \<and> sys_chown_ret (env\<lparr>fill_process_context := fp, fill_container_context := fc,
        fill_span_context := fs\<rparr>) t ctx rv s = sys_chown_ret env t ctx rv s"
proof -
  assume pop: "pop_syscall EVENT_CHOWN t (syscalls s) = (Some r, tbl)"
    and pipe: "is_pipefs_mount_id env (mount_id (path_key (setattr_t.file (setattr r))))"
  have ret: "sys_chown_ret env t ctx rv s = (0, s\<lparr>syscalls := tbl\<rparr>)" for ctx :: 'y and rv
    using pipe by (simp add: sys_chown_ret_popped [OF pop])
  have "sys_chown_ret (env\<lparr>fill_process_context := fp, fill_container_context := fc,
        fill_span_context := fs\<rparr>) t ctx rv s = (0, s\<lparr>syscalls := tbl\<rparr>)"
    using pipe by (simp add: sys_chown_ret_popped [OF pop])
  then show ?thesis
    by (simp add: ret syscall_exit_eq)
qed

text \<open>
  A record resolved to mount 7, the pipefs mount of the scenario.
\<close>

theorem chown_exit_pipefs_witness:
  "pop_syscall EVENT_CHOWN 5 (syscalls \<lparr>syscalls = [(5, scenario_record 1000 1000 7)], emitted = []\<rparr>) =
     (Some (scenario_record 1000 1000 7), [])
   \<and> is_pipefs_mount_id scenario_env (mount_id (path_key (setattr_t.file (setattr (scenario_record 1000 1000 7)))))
   \<and> syscall_exit scenario_env 5 (SYS_fchown 3) (Kretprobe \<lparr>rc = 0\<rparr>)
        \<lparr>syscalls = [(5, scenario_record 1000 1000 7)], emitted = []\<rparr> =
       (0, \<lparr>syscalls = [], emitted = []\<rparr>)"
  using chown_exit_pipefs [of 5 "\<lparr>syscalls = [(5, scenario_record 1000 1000 7)], emitted = []\<rparr>"
      "scenario_record 1000 1000 7" "[]" scenario_env "()" 0 "SYS_fchown 3" "Kretprobe \<lparr>rc = 0\<rparr>"]
  by (simp add: scenario_defs)

text \<open>
  Claim C9. The exit probe never reads the policy snapshot. On two states that agree
  except for the policy fields of their records it returns the same value, emits the
  same events and leaves tables that again agree except for policy fields; and for a
  chown record in the slot of the task, replacing its policy changes nothing at all in
  the outcome.
\<close>

theorem chown_exit_ignores_policy:
  "(erase_policy (syscalls s) = erase_policy (syscalls s') \<and> emitted s = emitted s' \<longrightarrow>
      fst (sys_chown_ret env t ctx rv s) = fst (sys_chown_ret env t ctx rv s')
      \<and> emitted (snd (sys_chown_ret env t ctx rv s)) = emitted (snd (sys_chown_ret env t ctx rv s'))
      \<and> erase_policy (syscalls (snd (sys_chown_ret env t ctx rv s))) =
          erase_policy (syscalls (snd (sys_chown_ret env t ctx rv s'))))
   \<and> (type r = EVENT_CHOWN \<longrightarrow>
        sys_chown_ret env t ctx rv (s0\<lparr>syscalls := (t, r\<lparr>policy := p\<rparr>) # rest\<rparr>) =
        sys_chown_ret env t ctx rv (s0\<lparr>syscalls := (t, r) # rest\<rparr>))"
proof (intro conjI impI)
  assume a: "erase_policy (syscalls s) = erase_policy (syscalls s') \<and> emitted s = emitted s'"
  then have tbl: "erase_policy (syscalls s) = erase_policy (syscalls s')" and ev: "emitted s = emitted s'"
    by simp_all
  note main = sys_chown_ret_erase_policy [OF tbl ev, of env t ctx rv]
  from main show "fst (sys_chown_ret env t ctx rv s) = fst (sys_chown_ret env t ctx rv s')" by simp
  from main show "emitted (snd (sys_chown_ret env t ctx rv s)) = emitted (snd (sys_chown_ret env t ctx rv s'))"
    by simp
  from main show "erase_policy (syscalls (snd (sys_chown_ret env t ctx rv s))) =
          erase_policy (syscalls (snd (sys_chown_ret env t ctx rv s')))" by simp
next
  assume "type r = EVENT_CHOWN"
  then show "sys_chown_ret env t ctx rv (s0\<lparr>syscalls := (t, r\<lparr>policy := p\<rparr>) # rest\<rparr>) =
       sys_chown_ret env t ctx rv (s0\<lparr>syscalls := (t, r) # rest\<rparr>)"
    by (simp add: sys_chown_ret_def pop_syscall_def send_event_def Let_def split: prod.splits)
qed

text \<open>
  The same record with policy mode 1 and with mode 9: one and the same event.
\<close>

theorem chown_exit_ignores_policy_witness:
  "erase_policy (syscalls \<lparr>syscalls = [(5, scenario_record 1000 1000 3)], emitted = []\<rparr>) =
     erase_policy (syscalls \<lparr>syscalls = [(5, (scenario_record 1000 1000 3)\<lparr>policy := \<lparr>mode = 9\<rparr>\<rparr>)], emitted = []\<rparr>)
   \<and> emitted (snd (sys_chown_ret scenario_env 5 () 0
        \<lparr>syscalls = [(5, (scenario_record 1000 1000 3)\<lparr>policy := \<lparr>mode = 9\<rparr>\<rparr>)], emitted = []\<rparr>)) =
       emitted (snd (sys_chown_ret scenario_env 5 () 0
        \<lparr>syscalls = [(5, scenario_record 1000 1000 3)], emitted = []\<rparr>))
   \<and> length (emitted (snd (sys_chown_ret scenario_env 5 () 0
        \<lparr>syscalls = [(5, scenario_record 1000 1000 3)], emitted = []\<rparr>))) = 1"
  using chown_exit_ignores_policy [of "\<lparr>syscalls = [(5, scenario_record 1000 1000 3)], emitted = []\<rparr>"
      "\<lparr>syscalls = [(5, (scenario_record 1000 1000 3)\<lparr>policy := \<lparr>mode = 9\<rparr>\<rparr>)], emitted = []\<rparr>"
      scenario_env 5 "()" 0]
  by (simp add: scenario_defs erase_policy_def)

text \<open>
  Claim C10. An entry probe does the same whatever the syscall variant and whatever its
  filename, file descriptor or directory descriptor: these arguments are never read.
  Unless the policy discards the process, the record is cached with the user and group
  given, a null directory entry and a zero file identity, whether or not the target
  exists. After the exit probe no chown record of the task is left in flight.
\<close>

theorem chown_entry_ignores_target:
  "syscall_entry env t v u g s = syscall_entry env t v' u g s
   \<and> kprobe_lchown env t filename u g s = kprobe_lchown env t filename' u g s
   \<and> kprobe_fchown env t fd u g s = kprobe_fchown env t fd' u g s
   \<and> kprobe_chown env t filename u g s = kprobe_chown env t filename' u g s
   \<and> kprobe_lchown16 env t filename u g s = kprobe_lchown16 env t filename' u g s
   \<and> kprobe_fchown16 env t fd u g s = kprobe_fchown16 env t fd' u g s
   \<and> kprobe_chown16 env t filename u g s = kprobe_chown16 env t filename' u g s
   \<and> kprobe_fchownat env t dirfd filename u g s = kprobe_fchownat env t dirfd' filename' u g s
   \<and> (\<not> is_discarded_by_process env t (mode (fetch_policy env EVENT_CHOWN)) EVENT_CHOWN \<and>
        0 < max_entries env \<longrightarrow>
        map_of (syscalls (snd (syscall_entry env t v u g s))) t =
          Some \<lparr>type = EVENT_CHOWN, policy = fetch_policy env EVENT_CHOWN,
                setattr = \<lparr>dentry = 0, setattr_t.file = zero_file, user = u, group = g\<rparr>\<rparr>)
   \<and> fst (pop_syscall EVENT_CHOWN t (syscalls (chown_call env t v u g rs trig s))) = None"
proof -
  have variants: "syscall_entry env t v u g s = syscall_entry env t v' u g s"
    by (simp add: syscall_entry_eq)
  have probes:
    "kprobe_lchown env t filename u g s = kprobe_lchown env t filename' u g s"
    "kprobe_fchown env t fd u g s = kprobe_fchown env t fd' u g s"
    "kprobe_chown env t filename u g s = kprobe_chown env t filename' u g s"
    "kprobe_lchown16 env t filename u g s = kprobe_lchown16 env t filename' u g s"
    "kprobe_fchown16 env t fd u g s = kprobe_fchown16 env t fd' u g s"
    "kprobe_chown16 env t filename u g s = kprobe_chown16 env t filename' u g s"
    "kprobe_fchownat env t dirfd filename u g s = kprobe_fchownat env t dirfd' filename' u g s"
    by (simp_all add: kprobe_lchown_def kprobe_fchown_def kprobe_chown_def kprobe_lchown16_def
        kprobe_fchown16_def kprobe_chown16_def kprobe_fchownat_def)
  have created: "\<not> is_discarded_by_process env t (mode (fetch_policy env EVENT_CHOWN)) EVENT_CHOWN \<and>
        0 < max_entries env \<longrightarrow>
        map_of (syscalls (snd (syscall_entry env t v u g s))) t =
          Some \<lparr>type = EVENT_CHOWN, policy = fetch_policy env EVENT_CHOWN,
                setattr = \<lparr>dentry = 0, setattr_t.file = zero_file, user = u, group = g\<rparr>\<rparr>"
    by (simp add: syscall_entry_eq trace__sys_chown_cached map_of_cache_syscall_same)
  have cleared: "fst (pop_syscall EVENT_CHOWN t (syscalls (chown_call env t v u g rs trig s))) = None"
    by (simp add: chown_call_def syscall_exit_eq sys_chown_ret_clears Let_def)
  from variants probes created cleared show ?thesis by (intro conjI)
qed

text \<open>
  A \<^verbatim>\<open>chown\<close> on a null path and an \<^verbatim>\<open>fchown\<close> on descriptor \<open>- 1\<close> cache the same record.
\<close>

theorem chown_entry_ignores_target_witness:
  "\<not> is_discarded_by_process scenario_env 5 (mode (fetch_policy scenario_env EVENT_CHOWN)) EVENT_CHOWN
   \<and> 0 < max_entries scenario_env
   \<and> syscall_entry scenario_env 5 (SYS_chown 0) 1000 1000 scenario_state =
       syscall_entry scenario_env 5 (SYS_fchown (- 1)) 1000 1000 scenario_state
   \<and> map_of (syscalls (snd (syscall_entry scenario_env 5 (SYS_chown 0) 1000 1000 scenario_state))) 5 =
       Some (scenario_record 1000 1000 0)"
  using chown_entry_ignores_target [of scenario_env 5 "SYS_chown 0" 1000 1000 scenario_state
      "SYS_fchown (- 1)" 0 0 0 0 0 0 "[]" "Kretprobe \<lparr>rc = 0\<rparr>"]
  by (simp add: scenario_env_def scenario_record_def scenario_state_def zero_file_def
      kprobe_chown_def kprobe_fchown_def trace__sys_chown_def cache_syscall_def)

end
